theory Spec2Isabelle
  imports Complex_Main
begin

section \<open>Values that cross the wrapper of \<open>pyift.shortestpath\<close>\<close>

text \<open>
  A numpy array is its shape, the kind of its elements and the contents of its buffer in
  row-major order. An element is held as the number it denotes (\<open>False\<close> is 0 and
  \<open>True\<close> is 1); floating-point rounding, NaN and infinities are outside the model: the
  wrapper only moves elements, it does no arithmetic on them.
\<close>

datatype dtype = DBool | DInt | DFloat

record ndarray =
  shape :: "nat list"
  dtype :: dtype
  data :: "real list"

definition ndim :: "ndarray \<Rightarrow> nat" where
  "ndim a = length (shape a)"

text \<open>\<open>scipy.sparse.csr_matrix\<close>: its shape is always a pair; \<open>data\<close>, \<open>indices\<close> and
  \<open>indptr\<close> are the three arrays the matrix owns.\<close>

record csr_matrix =
  shape_csr :: "nat \<times> nat"
  data_csr :: ndarray
  indices :: ndarray
  indptr :: ndarray

text \<open>What a caller may pass where the wrapper tests \<open>is None\<close> and \<open>isinstance\<close>:
  \<open>PyOther\<close> is any object that is neither \<open>None\<close>, an \<open>ndarray\<close> nor a \<open>csr_matrix\<close>.\<close>

datatype pyobj = PyNone | NdArray ndarray | CsrMatrix csr_matrix | PyOther

text \<open>The \<open>scales\<close> argument of \<open>distance_transform_edt\<close> (\<open>array_like, optional\<close>):
  \<open>None\<close>, an array, or a flat Python sequence of numbers, with the kind numpy gives its
  elements (integer for Python integers, float for floats).\<close>

datatype scales_arg = ScalesNone | ScalesArray ndarray | ScalesSeq dtype "real list"

text \<open>The exceptions raised; their messages are not modelled.\<close>

datatype py_error = ValueError | TypeError | NotImplementedError

section \<open>The numpy operations the wrapper uses\<close>

text \<open>\<open>np.expand_dims(a, axis)\<close>: a view of the same buffer with an axis of length 1 inserted.\<close>

definition expand_dims :: "ndarray \<Rightarrow> nat \<Rightarrow> ndarray" where
  "expand_dims a axis = a\<lparr>shape := take axis (shape a) @ [1] @ drop axis (shape a)\<rparr>"

text \<open>\<open>a.astype(bool)\<close>: a new array, an element is \<open>True\<close> when it is not zero.\<close>

definition astype_bool :: "ndarray \<Rightarrow> ndarray" where
  "astype_bool a = a\<lparr>dtype := DBool, data := map (\<lambda>x. if x = 0 then 0 else 1) (data a)\<rparr>"

text \<open>\<open>np.ones(n)\<close>: a new float array.\<close>

definition ones :: "nat \<Rightarrow> ndarray" where
  "ones n = \<lparr>shape = [n], dtype = DFloat, data = replicate n 1\<rparr>"

text \<open>\<open>np.ones_like(a, dtype=bool)\<close>: a new array of the shape of \<open>a\<close>, every element \<open>True\<close>.\<close>

definition ones_like_bool :: "ndarray \<Rightarrow> ndarray" where
  "ones_like_bool a = \<lparr>shape = shape a, dtype = DBool, data = replicate (prod_list (shape a)) 1\<rparr>"

text \<open>\<open>np.asarray(xs)\<close> on a flat sequence of numbers of kind \<open>d\<close>: a new 1-dimensional
  array of that kind.\<close>

definition asarray :: "dtype \<Rightarrow> real list \<Rightarrow> ndarray" where
  "asarray d xs = \<lparr>shape = [length xs], dtype = d, data = xs\<rparr>"

text \<open>\<open>a[i]\<close> on a 1-dimensional array; the wrapper reads it only at \<open>i < a.shape[0]\<close>.\<close>

definition item :: "ndarray \<Rightarrow> nat \<Rightarrow> real" where
  "item a i = data a ! i"

text \<open>\<open>np.array((1, x, y))\<close> with \<open>x\<close>, \<open>y\<close> elements of an array of kind \<open>d\<close>: a new
  array; the Python integer 1 makes a boolean kind integer.\<close>

definition array3 :: "dtype \<Rightarrow> real \<Rightarrow> real \<Rightarrow> real \<Rightarrow> ndarray" where
  "array3 d x y z = \<lparr>shape = [3], dtype = (case d of DFloat \<Rightarrow> DFloat | _ \<Rightarrow> DInt), data = [x, y, z]\<rparr>"

text \<open>The caller's array once its buffer holds \<open>xs\<close>: a write through the array or through
  a view of it changes the contents and nothing else.\<close>

definition store :: "ndarray \<Rightarrow> real list \<Rightarrow> ndarray" where
  "store a xs = a\<lparr>data := xs\<rparr>"

section \<open>The compiled core \<open>_pyift\<close>\<close>

text \<open>
  The extension module \<open>_pyift\<close> is not among the sources, so its seven entry points are
  parameters of the model. An entry point gives back what it returns or raises, and the
  contents of the buffer of each array it was handed, in argument order, as they are when
  it ends: numpy passes arrays by reference, so a write by the core would be seen by
  whoever shares the buffer.
\<close>

type_synonym maps4 = "ndarray \<times> ndarray \<times> ndarray \<times> ndarray"
type_synonym tree_stats = "(int list \<times> ndarray) list"
type_synonym maps5 = "ndarray \<times> ndarray \<times> ndarray \<times> ndarray \<times> tree_stats"

record ('r, 'w) effect =
  returned :: "py_error + 'r"
  written :: 'w

record core =
  seed_competition_grid ::
    "ndarray \<Rightarrow> ndarray \<Rightarrow> (maps4, real list \<times> real list) effect"
  seed_competition_graph ::
    "ndarray \<Rightarrow> ndarray \<Rightarrow> ndarray \<Rightarrow> ndarray
       \<Rightarrow> (maps4, real list \<times> real list \<times> real list \<times> real list) effect"
  dynamic_arc_weight_grid_exp_decay ::
    "ndarray \<Rightarrow> ndarray \<Rightarrow> real \<Rightarrow> (maps5, real list \<times> real list) effect"
  dynamic_arc_weight_grid_label ::
    "ndarray \<Rightarrow> ndarray \<Rightarrow> (maps5, real list \<times> real list) effect"
  dynamic_arc_weight_grid_root ::
    "ndarray \<Rightarrow> ndarray \<Rightarrow> (maps5, real list \<times> real list) effect"
  euclidean_distance_transform_grid ::
    "ndarray \<Rightarrow> ndarray \<Rightarrow> (ndarray \<times> ndarray, real list \<times> real list) effect"
  watershed_from_minima_grid ::
    "ndarray \<Rightarrow> ndarray \<Rightarrow> real \<Rightarrow> (ndarray \<times> ndarray, real list \<times> real list) effect"

text \<open>One invocation of the core, with the arguments it was handed.\<close>

datatype core_call =
    SeedCompetitionGrid ndarray ndarray
  | SeedCompetitionGraph ndarray ndarray ndarray ndarray
  | DynamicExpDecay ndarray ndarray real
  | DynamicLabel ndarray ndarray
  | DynamicRoot ndarray ndarray
  | EuclideanDistanceTransformGrid ndarray ndarray
  | WatershedFromMinimaGrid ndarray ndarray real

text \<open>
  A run of an entry point of the wrapper: what it returns or raises, the invocations of
  the core it made, in order, and the caller's arguments as the caller finds them
  afterwards.
\<close>

record ('r, 'a) run =
  outcome :: "py_error + 'r"
  calls :: "core_call list"
  args_after :: 'a

text \<open>A \<open>raise\<close> of the wrapper itself: nothing was invoked, nothing was touched.\<close>

definition raise :: "py_error \<Rightarrow> 'a \<Rightarrow> ('r, 'a) run" where
  "raise e args = \<lparr>outcome = Inl e, calls = [], args_after = args\<rparr>"

text \<open>
  An invocation of the core whose result the wrapper returns as it is: \<open>after\<close> says what
  the caller's arguments are once the core has written \<open>written eff\<close> to the buffers it was
  handed.
\<close>

definition invoke :: "core_call \<Rightarrow> ('r, 'w) effect \<Rightarrow> ('w \<Rightarrow> 'a) \<Rightarrow> ('r, 'a) run" where
  "invoke call eff after = \<lparr>outcome = returned eff, calls = [call], args_after = after (written eff)\<rparr>"

section \<open>\<open>seed_competition\<close>\<close>

text \<open>
  \<open>seed_competition(seeds, image=None, graph=None, image_3d=False)\<close>. \<open>seeds\<close> is an array, as
  annotated: the wrapper reads \<open>seeds.shape\<close> and \<open>seeds.ndim\<close> with no test before.
  \<open>np.expand_dims\<close> gives a view, so the core is handed the caller's image buffer in every
  case, the caller's \<open>seeds\<close>, and the three arrays of the caller's \<open>graph\<close>.
  The check of a square graph builds its message with \<open>'... %r.' % graph.shape\<close>, one
  \<open>%r\<close> for a pair, so what that line raises is \<open>TypeError\<close>.
\<close>

definition seed_competition ::
  "core \<Rightarrow> ndarray \<Rightarrow> pyobj \<Rightarrow> pyobj \<Rightarrow> bool \<Rightarrow> (maps4, ndarray \<times> pyobj \<times> pyobj) run" where
  "seed_competition c seeds image_arg graph image_3d =
    (if image_arg = PyNone \<and> graph = PyNone then raise ValueError (seeds, image_arg, graph)
     else if image_arg \<noteq> PyNone \<and> graph \<noteq> PyNone then raise ValueError (seeds, image_arg, graph)
     else if image_arg \<noteq> PyNone then
       (case image_arg of
          NdArray img \<Rightarrow>
            if ndim img < 2 \<or> ndim img > 4 then raise ValueError (seeds, image_arg, graph)
            else if ndim img = 2 \<and> image_3d then raise ValueError (seeds, image_arg, graph)
            else
              let img' = (if ndim img = 2 then expand_dims img 2
                          else if ndim img = 3 \<and> image_3d then expand_dims img 3
                          else img)
              in if butlast (shape img') \<noteq> shape seeds
                 then raise ValueError (seeds, image_arg, graph)
                 else invoke (SeedCompetitionGrid img' seeds) (seed_competition_grid c img' seeds)
                        (\<lambda>(w_image, w_seeds).
                           (store seeds w_seeds, NdArray (store img w_image), graph))
        | _ \<Rightarrow> raise TypeError (seeds, image_arg, graph))
     else
       (case graph of
          CsrMatrix g \<Rightarrow>
            if fst (shape_csr g) \<noteq> snd (shape_csr g)
            then raise TypeError (seeds, image_arg, graph)
            else if ndim seeds \<noteq> 1 then raise ValueError (seeds, image_arg, graph)
            else if shape seeds ! 0 \<noteq> fst (shape_csr g)
            then raise ValueError (seeds, image_arg, graph)
            else invoke (SeedCompetitionGraph (data_csr g) (indices g) (indptr g) seeds)
                   (seed_competition_graph c (data_csr g) (indices g) (indptr g) seeds)
                   (\<lambda>(w_data, w_indices, w_indptr, w_seeds).
                      (store seeds w_seeds, image_arg,
                       CsrMatrix (g\<lparr>data_csr := store (data_csr g) w_data,
                                     indices := store (indices g) w_indices,
                                     indptr := store (indptr g) w_indptr\<rparr>)))
        | _ \<Rightarrow> raise TypeError (seeds, image_arg, graph)))"

section \<open>\<open>dynamic_arc_weight\<close>\<close>

definition allowed_modes :: "string list" where
  "allowed_modes = [''exp'', ''label'', ''root'']"

text \<open>\<open>dynamic_arc_weight(seeds, image, image_3d=False, mode='root', alpha=0.5)\<close>.\<close>

definition dynamic_arc_weight ::
  "core \<Rightarrow> ndarray \<Rightarrow> pyobj \<Rightarrow> bool \<Rightarrow> string \<Rightarrow> real \<Rightarrow> (maps5, ndarray \<times> pyobj) run" where
  "dynamic_arc_weight c seeds image_arg image_3d mode alpha =
    (if mode \<notin> set allowed_modes then raise ValueError (seeds, image_arg)
     else
       (case image_arg of
          NdArray img \<Rightarrow>
            if ndim img < 2 \<or> ndim img > 4 then raise ValueError (seeds, image_arg)
            else if alpha < 0 \<or> alpha > 1 then raise ValueError (seeds, image_arg)
            else if ndim img = 2 \<and> image_3d then raise ValueError (seeds, image_arg)
            else
              let img' = (if ndim img = 2 then expand_dims img 2
                          else if ndim img = 3 \<and> image_3d then expand_dims img 3
                          else img);
                  after = (\<lambda>(w_image, w_seeds). (store seeds w_seeds, NdArray (store img w_image)))
              in if butlast (shape img') \<noteq> shape seeds then raise ValueError (seeds, image_arg)
                 else if mode = ''exp'' then
                   invoke (DynamicExpDecay img' seeds alpha)
                     (dynamic_arc_weight_grid_exp_decay c img' seeds alpha) after
                 else if mode = ''label'' then
                   invoke (DynamicLabel img' seeds) (dynamic_arc_weight_grid_label c img' seeds) after
                 else if mode = ''root'' then
                   invoke (DynamicRoot img' seeds) (dynamic_arc_weight_grid_root c img' seeds) after
                 else raise NotImplementedError (seeds, image_arg)
        | _ \<Rightarrow> raise TypeError (seeds, image_arg)))"

section \<open>\<open>distance_transform_edt\<close>\<close>

text \<open>
  \<open>distance_transform_edt(mask, scales=None)\<close>. The core is handed \<open>mask.astype(bool)\<close>, a
  copy, so nothing it writes there reaches the caller's mask. It is handed the caller's
  \<open>scales\<close> only when that is an array whose length is not 2; otherwise it is handed an
  array the wrapper has built. The wrapper unpacks the pair the core returns and returns
  its first component.
\<close>

definition distance_transform_edt ::
  "core \<Rightarrow> pyobj \<Rightarrow> scales_arg \<Rightarrow> (ndarray, pyobj \<times> scales_arg) run" where
  "distance_transform_edt c mask_arg scales =
    (case mask_arg of
       NdArray m \<Rightarrow>
         let scales1 = (case scales of
                          ScalesNone \<Rightarrow> ones 3
                        | ScalesArray s \<Rightarrow> s
                        | ScalesSeq d xs \<Rightarrow> asarray d xs)
         in if ndim scales1 \<noteq> 1 then raise ValueError (mask_arg, scales)
            else
              let scales2 = (if shape scales1 ! 0 = 2
                             then array3 (dtype scales1) 1 (item scales1 0) (item scales1 1)
                             else scales1)
              in if shape scales2 ! 0 \<noteq> 3 then raise ValueError (mask_arg, scales)
                 else if ndim m < 2 \<or> ndim m > 3 then raise ValueError (mask_arg, scales)
                 else
                   let eff = euclidean_distance_transform_grid c (astype_bool m) scales2
                   in \<lparr>outcome = (case returned eff of
                                    Inl e \<Rightarrow> Inl e
                                  | Inr (distance, _) \<Rightarrow> Inr distance),
                       calls = [EuclideanDistanceTransformGrid (astype_bool m) scales2],
                       args_after =
                         (mask_arg,
                          case scales of
                            ScalesArray s \<Rightarrow>
                              if shape s ! 0 = 2 then scales
                              else ScalesArray (store s (snd (written eff)))
                          | _ \<Rightarrow> scales)\<rparr>
     | _ \<Rightarrow> raise TypeError (mask_arg, scales))"

section \<open>\<open>watershed_from_minima\<close>\<close>

text \<open>
  \<open>watershed_from_minima(image, mask=None, penalization=1.0)\<close>. \<open>penalization\<close> is \<open>None\<close>
  here when the caller omits it, and then takes the default of the signature. The core is
  handed the caller's image and \<open>mask.astype(bool)\<close>, a copy.
\<close>

definition watershed_from_minima ::
  "core \<Rightarrow> pyobj \<Rightarrow> pyobj \<Rightarrow> real option \<Rightarrow> (ndarray \<times> ndarray, pyobj \<times> pyobj) run" where
  "watershed_from_minima c image_arg mask_arg penalization =
    (let p = (case penalization of None \<Rightarrow> 1 | Some x \<Rightarrow> x)
     in case image_arg of
          NdArray img \<Rightarrow>
            (case (if mask_arg = PyNone then NdArray (ones_like_bool img) else mask_arg) of
               NdArray m \<Rightarrow>
                 if shape img \<noteq> shape m then raise ValueError (image_arg, mask_arg)
                 else if ndim img < 2 \<or> ndim img > 3 then raise ValueError (image_arg, mask_arg)
                 else invoke (WatershedFromMinimaGrid img (astype_bool m) p)
                        (watershed_from_minima_grid c img (astype_bool m) p)
                        (\<lambda>(w_image, w_mask). (NdArray (store img w_image), mask_arg))
             | _ \<Rightarrow> raise TypeError (image_arg, mask_arg))
        | _ \<Rightarrow> raise TypeError (image_arg, mask_arg))"

section \<open>What the specification says of the wrapper and of the core\<close>

text \<open>
  The grid shape of an image after normalisation, in the words of the specification: the
  shape without the last, feature-vector axis, where a 2-dimensional image, and a
  3-dimensional one meant as a 3D grid, have been given a feature axis of length 1 first.
\<close>

definition grid_shape :: "ndarray \<Rightarrow> bool \<Rightarrow> nat list" where
  "grid_shape img image_3d =
     (if ndim img = 2 \<or> (ndim img = 3 \<and> image_3d) then shape img else butlast (shape img))"

text \<open>The inputs \<open>seed_competition\<close> is said to reject, case by case.\<close>

definition seed_competition_rejects :: "ndarray \<Rightarrow> pyobj \<Rightarrow> pyobj \<Rightarrow> bool \<Rightarrow> bool" where
  "seed_competition_rejects seeds image_arg graph image_3d \<longleftrightarrow>
     (image_arg = PyNone \<and> graph = PyNone)
     \<or> (image_arg \<noteq> PyNone \<and> graph \<noteq> PyNone)
     \<or> (image_arg \<noteq> PyNone \<and> graph = PyNone \<and>
          (case image_arg of
             NdArray img \<Rightarrow>
               ndim img < 2 \<or> 4 < ndim img \<or> (ndim img = 2 \<and> image_3d)
               \<or> grid_shape img image_3d \<noteq> shape seeds
           | _ \<Rightarrow> True))
     \<or> (image_arg = PyNone \<and> graph \<noteq> PyNone \<and>
          (case graph of
             CsrMatrix g \<Rightarrow>
               fst (shape_csr g) \<noteq> snd (shape_csr g) \<or> shape seeds \<noteq> [fst (shape_csr g)]
           | _ \<Rightarrow> True))"

text \<open>
  Modelled from the spec: the compiled core is not among the sources; section 5 says that
  the graph, seed and feature data are borrowed read-only inputs, never mutated. Every
  entry point leaves the buffer of each array it is handed as it found it.
\<close>

definition core_read_only :: "core \<Rightarrow> bool" where
  "core_read_only c \<longleftrightarrow>
     (\<forall>image seeds. written (seed_competition_grid c image seeds) = (data image, data seeds))
     \<and> (\<forall>d i p seeds. written (seed_competition_graph c d i p seeds)
                          = (data d, data i, data p, data seeds))
     \<and> (\<forall>image seeds alpha. written (dynamic_arc_weight_grid_exp_decay c image seeds alpha)
                          = (data image, data seeds))
     \<and> (\<forall>image seeds. written (dynamic_arc_weight_grid_label c image seeds)
                          = (data image, data seeds))
     \<and> (\<forall>image seeds. written (dynamic_arc_weight_grid_root c image seeds)
                          = (data image, data seeds))
     \<and> (\<forall>m scales. written (euclidean_distance_transform_grid c m scales)
                          = (data m, data scales))
     \<and> (\<forall>image m p. written (watershed_from_minima_grid c image m p)
                          = (data image, data m))"

text \<open>
  Modelled from the spec: the compiled core is not among the sources; section 6 says that
  the Euclidean distance map has the shape of the mask.
\<close>

definition core_distance_shaped :: "core \<Rightarrow> bool" where
  "core_distance_shaped c \<longleftrightarrow>
     (\<forall>m scales distance roots.
        returned (euclidean_distance_transform_grid c m scales) = Inr (distance, roots)
        \<longrightarrow> shape distance = shape m)"

section \<open>The examples of the docstrings\<close>

definition seeds_grid_example :: ndarray where
  "seeds_grid_example = \<lparr>shape = [3, 3], dtype = DInt, data = [1, 0, 0, 0, 0, 0, 0, 2, 0]\<rparr>"

definition image_example :: ndarray where
  "image_example = \<lparr>shape = [3, 3, 2], dtype = DFloat,
     data = [1, 5, 2, 6, 3, 8, 2, 6, 3, 8, 4, 9, 2, 8, 2, 9, 3, 9]\<rparr>"

definition seeds_graph_example :: ndarray where
  "seeds_graph_example = \<lparr>shape = [5], dtype = DInt, data = [1, 0, 0, 0, 2]\<rparr>"

definition graph_example :: csr_matrix where
  "graph_example = \<lparr>shape_csr = (5, 5),
     data_csr = \<lparr>shape = [12], dtype = DFloat, data = [3, 2, 3, 3, 1, 2, 3, 3, 3, 2, 1, 2]\<rparr>,
     indices = \<lparr>shape = [12], dtype = DInt, data = [1, 2, 0, 3, 4, 0, 3, 1, 2, 4, 1, 3]\<rparr>,
     indptr = \<lparr>shape = [6], dtype = DInt, data = [0, 2, 5, 7, 10, 12]\<rparr>\<rparr>"

definition mask_example :: ndarray where
  "mask_example = \<lparr>shape = [6, 6], dtype = DBool,
     data = [0, 0, 0, 0, 0, 0,
             0, 1, 0, 1, 0, 0,
             0, 1, 1, 1, 1, 0,
             0, 1, 1, 1, 1, 0,
             0, 1, 1, 0, 1, 0,
             0, 0, 0, 0, 0, 0]\<rparr>"

definition grayscale_example :: ndarray where
  "grayscale_example = \<lparr>shape = [6, 6], dtype = DInt,
     data = [7, 8, 9, 8, 8, 8,
             6, 3, 9, 0, 9, 8,
             4, 1, 6, 1, 1, 8,
             3, 3, 5, 4, 4, 8,
             1, 0, 7, 2, 2, 8,
             6, 8, 9, 8, 9, 9]\<rparr>"

text \<open>
  A stand-in for the compiled core in the examples: every entry point returns maps that
  repeat an array it was handed and writes nothing.
\<close>

definition echo_core :: core where
  "echo_core =
     \<lparr>seed_competition_grid = (\<lambda>image seeds.
        \<lparr>returned = Inr (seeds, seeds, seeds, seeds), written = (data image, data seeds)\<rparr>),
      seed_competition_graph = (\<lambda>d i p seeds.
        \<lparr>returned = Inr (seeds, seeds, seeds, seeds),
         written = (data d, data i, data p, data seeds)\<rparr>),
      dynamic_arc_weight_grid_exp_decay = (\<lambda>image seeds alpha.
        \<lparr>returned = Inr (seeds, seeds, seeds, seeds, []), written = (data image, data seeds)\<rparr>),
      dynamic_arc_weight_grid_label = (\<lambda>image seeds.
        \<lparr>returned = Inr (seeds, seeds, seeds, seeds, []), written = (data image, data seeds)\<rparr>),
      dynamic_arc_weight_grid_root = (\<lambda>image seeds.
        \<lparr>returned = Inr (seeds, seeds, seeds, seeds, []), written = (data image, data seeds)\<rparr>),
      euclidean_distance_transform_grid = (\<lambda>m scales.
        \<lparr>returned = Inr (m\<lparr>dtype := DFloat\<rparr>, m\<lparr>dtype := DInt\<rparr>),
         written = (data m, data scales)\<rparr>),
      watershed_from_minima_grid = (\<lambda>image m p.
        \<lparr>returned = Inr (image, image), written = (data image, data m)\<rparr>)\<rparr>"

text \<open>
  A core that does write: every entry point returns as \<open>echo_core\<close> does and fills with
  zeros the buffer of each array it was handed. It shows what the caller would see of a
  write, through which arguments.
\<close>

definition zeroing_core :: core where
  "zeroing_core =
     \<lparr>seed_competition_grid = (\<lambda>image seeds.
        \<lparr>returned = Inr (seeds, seeds, seeds, seeds),
         written = (map (\<lambda>x. 0) (data image), map (\<lambda>x. 0) (data seeds))\<rparr>),
      seed_competition_graph = (\<lambda>d i p seeds.
        \<lparr>returned = Inr (seeds, seeds, seeds, seeds),
         written = (map (\<lambda>x. 0) (data d), map (\<lambda>x. 0) (data i), map (\<lambda>x. 0) (data p),
                    map (\<lambda>x. 0) (data seeds))\<rparr>),
      dynamic_arc_weight_grid_exp_decay = (\<lambda>image seeds alpha.
        \<lparr>returned = Inr (seeds, seeds, seeds, seeds, []),
         written = (map (\<lambda>x. 0) (data image), map (\<lambda>x. 0) (data seeds))\<rparr>),
      dynamic_arc_weight_grid_label = (\<lambda>image seeds.
        \<lparr>returned = Inr (seeds, seeds, seeds, seeds, []),
         written = (map (\<lambda>x. 0) (data image), map (\<lambda>x. 0) (data seeds))\<rparr>),
      dynamic_arc_weight_grid_root = (\<lambda>image seeds.
        \<lparr>returned = Inr (seeds, seeds, seeds, seeds, []),
         written = (map (\<lambda>x. 0) (data image), map (\<lambda>x. 0) (data seeds))\<rparr>),
      euclidean_distance_transform_grid = (\<lambda>m scales.
        \<lparr>returned = Inr (m\<lparr>dtype := DFloat\<rparr>, m\<lparr>dtype := DInt\<rparr>),
         written = (map (\<lambda>x. 0) (data m), map (\<lambda>x. 0) (data scales))\<rparr>),
      watershed_from_minima_grid = (\<lambda>image m p.
        \<lparr>returned = Inr (image, image),
         written = (map (\<lambda>x. 0) (data image), map (\<lambda>x. 0) (data m))\<rparr>)\<rparr>"

section \<open>Facts about the numpy operations\<close>

lemma butlast_expand_dims: "ndim a = n \<Longrightarrow> butlast (shape (expand_dims a n)) = shape a"
  by (simp add: expand_dims_def ndim_def)

lemma data_expand_dims [simp]: "data (expand_dims a n) = data a"
  by (simp add: expand_dims_def)

lemma dtype_expand_dims [simp]: "dtype (expand_dims a n) = dtype a"
  by (simp add: expand_dims_def)

lemma singleton_iff: "xs = [n] \<longleftrightarrow> length xs = 1 \<and> xs ! 0 = n"
  by (cases xs) auto

lemma astype_bool_idem [simp]: "astype_bool (astype_bool a) = astype_bool a"
  by (simp add: astype_bool_def)

lemma shape_astype_bool [simp]: "shape (astype_bool a) = shape a"
  by (simp add: astype_bool_def)

lemma ndim_astype_bool [simp]: "ndim (astype_bool a) = ndim a"
  by (simp add: ndim_def)

lemma astype_bool_ones_like [simp]: "astype_bool (ones_like_bool a) = ones_like_bool a"
  by (simp add: astype_bool_def ones_like_bool_def)

lemma shape_ones_like_bool [simp]: "shape (ones_like_bool a) = shape a"
  by (simp add: ones_like_bool_def)

lemma store_data [simp]: "store a (data a) = a"
  by (simp add: store_def)

text \<open>The normalisation written in both grid entry points gives the grid shape of the
  specification.\<close>

lemma grid_shape_normalised:
  "butlast (shape (if ndim img = 2 then expand_dims img 2
                   else if ndim img = 3 \<and> image_3d then expand_dims img 3
                   else img)) = grid_shape img image_3d"
proof (cases "ndim img = 2")
  case True
  then show ?thesis by (simp add: grid_shape_def butlast_expand_dims)
next
  case False
  then show ?thesis
    by (cases image_3d; cases "ndim img = 3") (simp_all add: grid_shape_def butlast_expand_dims)
qed

text \<open>\<open>dynamic_arc_weight\<close> on arguments that pass every check: one invocation, chosen
  by \<open>mode\<close>.\<close>

lemma dynamic_arc_weight_accepted:
  assumes "mode \<in> set allowed_modes" "2 \<le> ndim img" "ndim img \<le> 4" "0 \<le> alpha" "alpha \<le> 1"
    "\<not> (ndim img = 2 \<and> image_3d)" "grid_shape img image_3d = shape seeds"
  shows "\<exists>img'. data img' = data img \<and> dtype img' = dtype img
          \<and> butlast (shape img') = shape seeds
          \<and> dynamic_arc_weight c seeds (NdArray img) image_3d mode alpha =
              (if mode = ''exp'' then
                 invoke (DynamicExpDecay img' seeds alpha)
                   (dynamic_arc_weight_grid_exp_decay c img' seeds alpha)
                   (\<lambda>(w_image, w_seeds). (store seeds w_seeds, NdArray (store img w_image)))
               else if mode = ''label'' then
                 invoke (DynamicLabel img' seeds) (dynamic_arc_weight_grid_label c img' seeds)
                   (\<lambda>(w_image, w_seeds). (store seeds w_seeds, NdArray (store img w_image)))
               else
                 invoke (DynamicRoot img' seeds) (dynamic_arc_weight_grid_root c img' seeds)
                   (\<lambda>(w_image, w_seeds). (store seeds w_seeds, NdArray (store img w_image))))"
proof -
  let ?after = "\<lambda>(w_image, w_seeds). (store seeds w_seeds, NdArray (store img w_image))"
  let ?dispatch = "\<lambda>img'.
              (if mode = ''exp'' then
                 invoke (DynamicExpDecay img' seeds alpha)
                   (dynamic_arc_weight_grid_exp_decay c img' seeds alpha) ?after
               else if mode = ''label'' then
                 invoke (DynamicLabel img' seeds) (dynamic_arc_weight_grid_label c img' seeds)
                   ?after
               else
                 invoke (DynamicRoot img' seeds) (dynamic_arc_weight_grid_root c img' seeds)
                   ?after)"
  let ?img' = "if ndim img = 2 then expand_dims img 2
               else if ndim img = 3 \<and> image_3d then expand_dims img 3 else img"
  have b: "butlast (shape ?img') = shape seeds"
    unfolding grid_shape_normalised by (rule assms(7))
  have d: "data ?img' = data img" "dtype ?img' = dtype img"
    by simp_all
  have na: "\<not> (alpha < 0 \<or> 1 < alpha)" "\<not> (ndim img < 2 \<or> 4 < ndim img)"
    using assms by simp_all
  have m: "mode = ''exp'' \<or> mode = ''label'' \<or> mode = ''root''"
    using assms(1) by (simp add: allowed_modes_def)
  have "dynamic_arc_weight c seeds (NdArray img) image_3d mode alpha = ?dispatch ?img'"
  proof (cases "ndim img = 2")
    case True
    with assms(6) have n3: "\<not> image_3d" by simp
    from b True have "butlast (shape (expand_dims img 2)) = shape seeds" by simp
    with True n3 na m show ?thesis
      by (auto simp: dynamic_arc_weight_def Let_def allowed_modes_def)
  next
    case False
    show ?thesis
    proof (cases "ndim img = 3 \<and> image_3d")
      case True
      with b False have "butlast (shape (expand_dims img 3)) = shape seeds" by simp
      with True False na m show ?thesis
        by (auto simp: dynamic_arc_weight_def Let_def allowed_modes_def)
    next
      case F: False
      with b False have "butlast (shape img) = shape seeds" by auto
      with F False na m show ?thesis
        by (auto simp: dynamic_arc_weight_def Let_def allowed_modes_def)
    qed
  qed
  with b d show ?thesis by blast
qed


text \<open>Whatever the arguments, \<open>dynamic_arc_weight\<close> invokes nothing or the one entry point
  of its \<open>mode\<close>, on the caller's \<open>seeds\<close>.\<close>

lemma dynamic_arc_weight_calls_cases:
  "calls (dynamic_arc_weight c seeds image_arg image_3d mode alpha) = []
   \<or> (\<exists>img'. (mode = ''exp'' \<and> calls (dynamic_arc_weight c seeds image_arg image_3d mode alpha)
                                  = [DynamicExpDecay img' seeds alpha])
           \<or> (mode = ''label'' \<and> calls (dynamic_arc_weight c seeds image_arg image_3d mode alpha)
                                  = [DynamicLabel img' seeds])
           \<or> (mode = ''root'' \<and> calls (dynamic_arc_weight c seeds image_arg image_3d mode alpha)
                                  = [DynamicRoot img' seeds]))"
  by (cases image_arg) (simp_all add: dynamic_arc_weight_def Let_def raise_def invoke_def)

text \<open>A write by the core reaches the caller's seeds and image; it does not reach the mask
  of \<open>distance_transform_edt\<close>, of which the core is handed a copy.\<close>

lemma zeroing_core_reaches_seeds:
  "args_after (seed_competition zeroing_core seeds_grid_example (NdArray image_example) PyNone False)
     = (seeds_grid_example\<lparr>data := replicate 9 0\<rparr>,
        NdArray (image_example\<lparr>data := replicate 18 0\<rparr>), PyNone)"
  by (simp add: seed_competition_def Let_def ndim_def invoke_def raise_def store_def
        zeroing_core_def seeds_grid_example_def image_example_def eval_nat_numeral)

lemma zeroing_core_spares_mask:
  "fst (args_after (distance_transform_edt zeroing_core (NdArray m) scales)) = NdArray m"
  by (cases scales) (simp_all add: distance_transform_edt_def Let_def raise_def)


section \<open>The claims\<close>

text \<open>
  C1. \<open>seed_competition\<close> rejects an input with an exception before the core executes
  exactly in the listed cases: neither or both of \<open>image\<close> and \<open>graph\<close>; an image that is
  not an array, has fewer than 2 or more than 4 dimensions, is 2-dimensional with
  \<open>image_3d\<close>, or whose normalised grid shape differs from \<open>seeds.shape\<close>; a graph that is
  not a square CSR matrix, or seeds that are not 1-dimensional of the length of the node
  count. In every other case the core is invoked exactly once, on the caller's image data
  or on the three arrays of the graph, and what it returns is returned.
\<close>

theorem seed_competition_rejects_iff:
  "(seed_competition_rejects seeds image_arg graph image_3d \<longrightarrow>
      (\<exists>e. outcome (seed_competition c seeds image_arg graph image_3d) = Inl e)
      \<and> calls (seed_competition c seeds image_arg graph image_3d) = [])
   \<and> (\<not> seed_competition_rejects seeds image_arg graph image_3d \<longrightarrow>
        ((\<exists>img img'. image_arg = NdArray img \<and> data img' = data img \<and> dtype img' = dtype img
                \<and> butlast (shape img') = shape seeds
                \<and> calls (seed_competition c seeds image_arg graph image_3d)
                    = [SeedCompetitionGrid img' seeds]
                \<and> outcome (seed_competition c seeds image_arg graph image_3d)
                    = returned (seed_competition_grid c img' seeds))
         \<or> (\<exists>g. graph = CsrMatrix g
                \<and> calls (seed_competition c seeds image_arg graph image_3d)
                    = [SeedCompetitionGraph (data_csr g) (indices g) (indptr g) seeds]
                \<and> outcome (seed_competition c seeds image_arg graph image_3d)
                    = returned (seed_competition_graph c (data_csr g) (indices g) (indptr g)
                                  seeds))))"
  by (cases image_arg; cases graph)
     (auto simp: seed_competition_def seed_competition_rejects_def raise_def invoke_def Let_def
        grid_shape_def butlast_expand_dims ndim_def singleton_iff split: prod.splits)

theorem seed_competition_rejects_iff_witness:
  "seed_competition_rejects seeds_grid_example PyNone PyNone False
   \<and> calls (seed_competition echo_core seeds_grid_example PyNone PyNone False) = []
   \<and> \<not> seed_competition_rejects seeds_grid_example (NdArray image_example) PyNone False
   \<and> calls (seed_competition echo_core seeds_grid_example (NdArray image_example) PyNone False)
       = [SeedCompetitionGrid image_example seeds_grid_example]
   \<and> \<not> seed_competition_rejects seeds_graph_example PyNone (CsrMatrix graph_example) False
   \<and> outcome (seed_competition echo_core seeds_graph_example PyNone (CsrMatrix graph_example) False)
       = Inr (seeds_graph_example, seeds_graph_example, seeds_graph_example, seeds_graph_example)"
  using seed_competition_rejects_iff [of seeds_grid_example PyNone PyNone False echo_core]
        seed_competition_rejects_iff
          [of seeds_grid_example "NdArray image_example" PyNone False echo_core]
        seed_competition_rejects_iff
          [of seeds_graph_example PyNone "CsrMatrix graph_example" False echo_core]
  by (simp add: seed_competition_rejects_def grid_shape_def ndim_def seeds_grid_example_def
        image_example_def seeds_graph_example_def graph_example_def seed_competition_def
        raise_def invoke_def echo_core_def Let_def store_def)

text \<open>
  C2, as stated: two calls of \<open>dynamic_arc_weight\<close> with \<open>mode='root'\<close> that differ only in
  \<open>alpha\<close> behave identically. It fails: the range check on \<open>alpha\<close> comes before the
  dispatch on \<open>mode\<close>, so \<open>alpha = 2\<close> is rejected where \<open>alpha = 0.5\<close> reaches the core.
\<close>

theorem dynamic_arc_weight_alpha_counterexample:
  "dynamic_arc_weight echo_core seeds_grid_example (NdArray image_example) False ''root'' 2
     \<noteq> dynamic_arc_weight echo_core seeds_grid_example (NdArray image_example) False ''root'' (1/2)
   \<and> outcome (dynamic_arc_weight echo_core seeds_grid_example (NdArray image_example) False
                ''root'' 2) = Inl ValueError
   \<and> calls (dynamic_arc_weight echo_core seeds_grid_example (NdArray image_example) False
              ''root'' 2) = []
   \<and> calls (dynamic_arc_weight echo_core seeds_grid_example (NdArray image_example) False
              ''root'' (1/2)) = [DynamicRoot image_example seeds_grid_example]"
  by (simp add: dynamic_arc_weight_def allowed_modes_def ndim_def seeds_grid_example_def
        image_example_def raise_def invoke_def echo_core_def Let_def)

text \<open>
  C2, amended. With \<open>mode='root'\<close> or \<open>mode='label'\<close>, two calls that differ only in \<open>alpha\<close>
  behave identically when both values of \<open>alpha\<close> lie in [0, 1] (or both lie outside); an
  \<open>alpha\<close> outside [0, 1] is rejected with \<open>ValueError\<close> in every mode, once the mode and the
  number of dimensions of the image have been accepted.
\<close>

theorem dynamic_arc_weight_alpha_in_range:
  "(mode = ''root'' \<or> mode = ''label'' \<longrightarrow>
      (alpha < 0 \<or> 1 < alpha) = (alpha' < 0 \<or> 1 < alpha') \<longrightarrow>
      dynamic_arc_weight c seeds image_arg image_3d mode alpha
        = dynamic_arc_weight c seeds image_arg image_3d mode alpha')
   \<and> (mode \<in> set allowed_modes \<and> image_arg = NdArray img \<and> 2 \<le> ndim img \<and> ndim img \<le> 4
        \<and> (alpha < 0 \<or> 1 < alpha) \<longrightarrow>
        dynamic_arc_weight c seeds image_arg image_3d mode alpha
          = raise ValueError (seeds, image_arg))"
  by (cases image_arg) (auto simp: dynamic_arc_weight_def allowed_modes_def Let_def)

theorem dynamic_arc_weight_alpha_in_range_witness:
  "dynamic_arc_weight echo_core seeds_grid_example (NdArray image_example) False ''root'' (1/5)
     = dynamic_arc_weight echo_core seeds_grid_example (NdArray image_example) False ''root'' (7/10)
   \<and> dynamic_arc_weight echo_core seeds_grid_example (NdArray image_example) False ''exp'' 2
     = raise ValueError (seeds_grid_example, NdArray image_example)"
  using dynamic_arc_weight_alpha_in_range
          [of "''root''" "1/5" "7/10" echo_core seeds_grid_example "NdArray image_example" False
              image_example]
        dynamic_arc_weight_alpha_in_range
          [of "''exp''" 2 2 echo_core seeds_grid_example "NdArray image_example" False
              image_example]
  by (simp add: allowed_modes_def ndim_def image_example_def)

text \<open>
  C3, as stated: \<open>distance_transform_edt\<close> accepts a \<open>scales\<close> of 1, 2 or 3 positive reals.
  It fails for one real: a \<open>scales\<close> of length 1 is rejected with \<open>ValueError\<close> and the core
  is not invoked.
\<close>

theorem distance_transform_edt_one_scale_counterexample:
  "outcome (distance_transform_edt echo_core (NdArray mask_example)
              (ScalesArray \<lparr>shape = [1], dtype = DFloat, data = [2]\<rparr>)) = Inl ValueError
   \<and> calls (distance_transform_edt echo_core (NdArray mask_example)
              (ScalesArray \<lparr>shape = [1], dtype = DFloat, data = [2]\<rparr>)) = []"
  by (simp add: distance_transform_edt_def ndim_def raise_def Let_def)

text \<open>
  C3, amended. On a mask of 2 or 3 dimensions, \<open>distance_transform_edt\<close> accepts a \<open>scales\<close>
  of 2 or 3 reals, given as an array or as a sequence, and invokes the core for each of
  these two arities (with \<open>(1, scales[0], scales[1])\<close> for two, with \<open>scales\<close> itself for
  three); a 1-dimensional \<open>scales\<close> of any other length, 1 included, is rejected with
  \<open>ValueError\<close> before the core is invoked; when \<open>scales\<close> is omitted it is \<open>np.ones(3)\<close>.
\<close>

theorem distance_transform_edt_scales_arity:
  "2 \<le> ndim m \<and> ndim m \<le> 3 \<longrightarrow>
     calls (distance_transform_edt c (NdArray m) ScalesNone)
       = [EuclideanDistanceTransformGrid (astype_bool m) (ones 3)]
     \<and> (shape s = [3] \<longrightarrow>
          calls (distance_transform_edt c (NdArray m) (ScalesArray s))
            = [EuclideanDistanceTransformGrid (astype_bool m) s])
     \<and> (shape s = [2] \<longrightarrow>
          calls (distance_transform_edt c (NdArray m) (ScalesArray s))
            = [EuclideanDistanceTransformGrid (astype_bool m)
                 (array3 (dtype s) 1 (item s 0) (item s 1))])
     \<and> (shape s = [n] \<and> n \<noteq> 2 \<and> n \<noteq> 3 \<longrightarrow>
          distance_transform_edt c (NdArray m) (ScalesArray s)
            = raise ValueError (NdArray m, ScalesArray s))
     \<and> calls (distance_transform_edt c (NdArray m) (ScalesSeq d [x, y, z]))
          = [EuclideanDistanceTransformGrid (astype_bool m) (asarray d [x, y, z])]
     \<and> calls (distance_transform_edt c (NdArray m) (ScalesSeq d [x, y]))
          = [EuclideanDistanceTransformGrid (astype_bool m) (array3 d 1 x y)]
     \<and> distance_transform_edt c (NdArray m) (ScalesSeq d [x])
          = raise ValueError (NdArray m, ScalesSeq d [x])"
  by (auto simp: distance_transform_edt_def ndim_def Let_def ones_def asarray_def array3_def
        item_def raise_def)

theorem distance_transform_edt_scales_arity_witness:
  "calls (distance_transform_edt echo_core (NdArray mask_example) ScalesNone)
     = [EuclideanDistanceTransformGrid mask_example
          \<lparr>shape = [3], dtype = DFloat, data = [1, 1, 1]\<rparr>]
   \<and> distance_transform_edt echo_core (NdArray mask_example)
        (ScalesArray \<lparr>shape = [1], dtype = DFloat, data = [2]\<rparr>)
     = raise ValueError
         (NdArray mask_example, ScalesArray \<lparr>shape = [1], dtype = DFloat, data = [2]\<rparr>)
   \<and> calls (distance_transform_edt echo_core (NdArray mask_example)
        (ScalesArray \<lparr>shape = [3], dtype = DFloat, data = [2, 3, 4]\<rparr>))
     = [EuclideanDistanceTransformGrid mask_example
          \<lparr>shape = [3], dtype = DFloat, data = [2, 3, 4]\<rparr>]"
  using distance_transform_edt_scales_arity
          [of mask_example echo_core "\<lparr>shape = [1], dtype = DFloat, data = [2]\<rparr>" 1]
        distance_transform_edt_scales_arity
          [of mask_example echo_core "\<lparr>shape = [3], dtype = DFloat, data = [2, 3, 4]\<rparr>" 3]
  by (simp add: ndim_def mask_example_def astype_bool_def ones_def numeral_3_eq_3)

text \<open>
  C4. \<open>distance_transform_edt\<close> returns the distance map alone. On a mask of 2 or 3
  dimensions, with \<open>scales\<close> omitted or of length 3 or 2, it invokes the core once and
  what it returns is the first component of the pair the core returns (an exception of
  the core passes through); the root map is dropped. Whatever the arguments, it either
  raises with no invocation, or that is what it does. The core was handed
  \<open>mask.astype(bool)\<close>, which has the shape of \<open>mask\<close>, so with a core whose distance map
  has the shape of its mask the array returned has the shape of \<open>mask\<close>.
\<close>

theorem distance_transform_edt_returns_distance:
  "(2 \<le> ndim m \<and> ndim m \<le> 3 \<longrightarrow>
      calls (distance_transform_edt c (NdArray m) ScalesNone)
        = [EuclideanDistanceTransformGrid (astype_bool m) (ones 3)]
      \<and> outcome (distance_transform_edt c (NdArray m) ScalesNone)
        = map_sum id fst (returned (euclidean_distance_transform_grid c (astype_bool m) (ones 3)))
      \<and> (shape s = [3] \<longrightarrow>
           calls (distance_transform_edt c (NdArray m) (ScalesArray s))
             = [EuclideanDistanceTransformGrid (astype_bool m) s]
           \<and> outcome (distance_transform_edt c (NdArray m) (ScalesArray s))
             = map_sum id fst (returned (euclidean_distance_transform_grid c (astype_bool m) s)))
      \<and> (shape s = [2] \<longrightarrow>
           calls (distance_transform_edt c (NdArray m) (ScalesArray s))
             = [EuclideanDistanceTransformGrid (astype_bool m)
                  (array3 (dtype s) 1 (item s 0) (item s 1))]
           \<and> outcome (distance_transform_edt c (NdArray m) (ScalesArray s))
             = map_sum id fst (returned (euclidean_distance_transform_grid c (astype_bool m)
                                          (array3 (dtype s) 1 (item s 0) (item s 1))))))
   \<and> ((calls (distance_transform_edt c mask_arg scales) = []
        \<and> (\<exists>e. outcome (distance_transform_edt c mask_arg scales) = Inl e))
       \<or> (\<exists>m' sc. mask_arg = NdArray m'
             \<and> calls (distance_transform_edt c mask_arg scales)
                 = [EuclideanDistanceTransformGrid (astype_bool m') sc]
             \<and> outcome (distance_transform_edt c mask_arg scales)
                 = map_sum id fst
                     (returned (euclidean_distance_transform_grid c (astype_bool m') sc))))
   \<and> (outcome (distance_transform_edt c mask_arg scales) = Inr d \<longrightarrow>
        (\<exists>m' sc roots. mask_arg = NdArray m'
           \<and> calls (distance_transform_edt c mask_arg scales)
               = [EuclideanDistanceTransformGrid (astype_bool m') sc]
           \<and> returned (euclidean_distance_transform_grid c (astype_bool m') sc) = Inr (d, roots)
           \<and> (core_distance_shaped c \<longrightarrow> shape d = shape m')))"
proof (intro conjI)
  show "2 \<le> ndim m \<and> ndim m \<le> 3 \<longrightarrow>
      calls (distance_transform_edt c (NdArray m) ScalesNone)
        = [EuclideanDistanceTransformGrid (astype_bool m) (ones 3)]
      \<and> outcome (distance_transform_edt c (NdArray m) ScalesNone)
        = map_sum id fst (returned (euclidean_distance_transform_grid c (astype_bool m) (ones 3)))
      \<and> (shape s = [3] \<longrightarrow>
           calls (distance_transform_edt c (NdArray m) (ScalesArray s))
             = [EuclideanDistanceTransformGrid (astype_bool m) s]
           \<and> outcome (distance_transform_edt c (NdArray m) (ScalesArray s))
             = map_sum id fst (returned (euclidean_distance_transform_grid c (astype_bool m) s)))
      \<and> (shape s = [2] \<longrightarrow>
           calls (distance_transform_edt c (NdArray m) (ScalesArray s))
             = [EuclideanDistanceTransformGrid (astype_bool m)
                  (array3 (dtype s) 1 (item s 0) (item s 1))]
           \<and> outcome (distance_transform_edt c (NdArray m) (ScalesArray s))
             = map_sum id fst (returned (euclidean_distance_transform_grid c (astype_bool m)
                                          (array3 (dtype s) 1 (item s 0) (item s 1)))))"
    by (auto simp: distance_transform_edt_def Let_def ndim_def ones_def array3_def
          split: sum.splits prod.splits)
  show "(calls (distance_transform_edt c mask_arg scales) = []
        \<and> (\<exists>e. outcome (distance_transform_edt c mask_arg scales) = Inl e))
       \<or> (\<exists>m' sc. mask_arg = NdArray m'
             \<and> calls (distance_transform_edt c mask_arg scales)
                 = [EuclideanDistanceTransformGrid (astype_bool m') sc]
             \<and> outcome (distance_transform_edt c mask_arg scales)
                 = map_sum id fst
                     (returned (euclidean_distance_transform_grid c (astype_bool m') sc)))"
    by (cases mask_arg)
       (auto simp: distance_transform_edt_def Let_def raise_def
          split: sum.splits prod.splits)
  show "outcome (distance_transform_edt c mask_arg scales) = Inr d \<longrightarrow>
        (\<exists>m' sc roots. mask_arg = NdArray m'
           \<and> calls (distance_transform_edt c mask_arg scales)
               = [EuclideanDistanceTransformGrid (astype_bool m') sc]
           \<and> returned (euclidean_distance_transform_grid c (astype_bool m') sc) = Inr (d, roots)
           \<and> (core_distance_shaped c \<longrightarrow> shape d = shape m'))"
  proof
    assume "outcome (distance_transform_edt c mask_arg scales) = Inr d"
    then show "\<exists>m' sc roots. mask_arg = NdArray m'
           \<and> calls (distance_transform_edt c mask_arg scales)
               = [EuclideanDistanceTransformGrid (astype_bool m') sc]
           \<and> returned (euclidean_distance_transform_grid c (astype_bool m') sc) = Inr (d, roots)
           \<and> (core_distance_shaped c \<longrightarrow> shape d = shape m')"
      by (cases mask_arg)
         (auto simp: distance_transform_edt_def Let_def raise_def core_distance_shaped_def
            split: if_splits sum.splits prod.splits dest!: spec)
  qed
qed

theorem distance_transform_edt_returns_distance_witness:
  "outcome (distance_transform_edt echo_core (NdArray mask_example) ScalesNone)
     = Inr (mask_example\<lparr>dtype := DFloat\<rparr>)
   \<and> calls (distance_transform_edt echo_core (NdArray mask_example) ScalesNone)
     = [EuclideanDistanceTransformGrid mask_example (ones 3)]
   \<and> outcome (distance_transform_edt echo_core (NdArray mask_example)
                (ScalesArray \<lparr>shape = [3], dtype = DFloat, data = [2, 3, 4]\<rparr>))
     = Inr (mask_example\<lparr>dtype := DFloat\<rparr>)
   \<and> core_distance_shaped echo_core
   \<and> shape (mask_example\<lparr>dtype := DFloat\<rparr>) = shape mask_example"
proof -
  have n: "2 \<le> ndim mask_example \<and> ndim mask_example \<le> 3"
    by (simp add: ndim_def mask_example_def)
  have a: "astype_bool mask_example = mask_example"
    by (simp add: astype_bool_def mask_example_def)
  have r: "returned (euclidean_distance_transform_grid echo_core mask_example sc)
             = Inr (mask_example\<lparr>dtype := DFloat\<rparr>, mask_example\<lparr>dtype := DInt\<rparr>)" for sc
    by (simp add: echo_core_def)
  have s: "core_distance_shaped echo_core"
    by (auto simp: core_distance_shaped_def echo_core_def)
  from distance_transform_edt_returns_distance
         [of mask_example echo_core "\<lparr>shape = [3], dtype = DFloat, data = [2, 3, 4]\<rparr>"
             "NdArray mask_example" ScalesNone "mask_example\<lparr>dtype := DFloat\<rparr>"]
       n a r s
  show ?thesis by simp
qed

text \<open>
  C5, as stated: a call of \<open>watershed_from_minima\<close> with a non-positive \<open>penalization\<close> is
  rejected by the wrapper and never reaches the core. It fails: the wrapper has no check
  on \<open>penalization\<close>, and \<open>penalization = -1\<close> reaches the core.
\<close>

theorem watershed_from_minima_penalization_counterexample:
  "calls (watershed_from_minima echo_core (NdArray grayscale_example) PyNone (Some (-1)))
     = [WatershedFromMinimaGrid grayscale_example (ones_like_bool grayscale_example) (-1)]
   \<and> outcome (watershed_from_minima echo_core (NdArray grayscale_example) PyNone (Some (-1)))
     = Inr (grayscale_example, grayscale_example)"
  by (simp add: watershed_from_minima_def Let_def ndim_def invoke_def echo_core_def
        grayscale_example_def)

text \<open>
  C5, amended. \<open>watershed_from_minima\<close> does not check \<open>penalization\<close>: whenever the image
  and the mask are accepted (arrays of the same shape, of 2 or 3 dimensions), the core is
  invoked with the caller's \<open>penalization\<close> as it is, whatever its sign.
\<close>

theorem watershed_from_minima_penalization_unchecked:
  "shape img = shape m \<and> 2 \<le> ndim img \<and> ndim img \<le> 3 \<longrightarrow>
     calls (watershed_from_minima c (NdArray img) (NdArray m) (Some p))
       = [WatershedFromMinimaGrid img (astype_bool m) p]
     \<and> outcome (watershed_from_minima c (NdArray img) (NdArray m) (Some p))
       = returned (watershed_from_minima_grid c img (astype_bool m) p)"
  by (auto simp: watershed_from_minima_def Let_def invoke_def)

theorem watershed_from_minima_penalization_unchecked_witness:
  "calls (watershed_from_minima echo_core (NdArray grayscale_example)
            (NdArray (ones_like_bool grayscale_example)) (Some (-1)))
     = [WatershedFromMinimaGrid grayscale_example (ones_like_bool grayscale_example) (-1)]
   \<and> calls (watershed_from_minima echo_core (NdArray grayscale_example)
            (NdArray (ones_like_bool grayscale_example)) (Some 0))
     = [WatershedFromMinimaGrid grayscale_example (ones_like_bool grayscale_example) 0]"
  using watershed_from_minima_penalization_unchecked
          [of grayscale_example "ones_like_bool grayscale_example" echo_core "-1"]
        watershed_from_minima_penalization_unchecked
          [of grayscale_example "ones_like_bool grayscale_example" echo_core 0]
  by (simp add: ndim_def grayscale_example_def)

text \<open>
  C6, as stated: \<open>seed_competition\<close> and \<open>dynamic_arc_weight\<close> hand \<open>seeds\<close> to the core
  coerced to an integer kind. It fails: seeds of a float kind are handed over as they are.
\<close>

theorem seeds_not_coerced_counterexample:
  "calls (seed_competition echo_core
            \<lparr>shape = [3, 3], dtype = DFloat, data = [3/2, 0, 0, 0, 0, 0, 0, 2, 0]\<rparr>
            (NdArray image_example) PyNone False)
     = [SeedCompetitionGrid image_example
          \<lparr>shape = [3, 3], dtype = DFloat, data = [3/2, 0, 0, 0, 0, 0, 0, 2, 0]\<rparr>]
   \<and> dtype \<lparr>shape = [3, 3], dtype = DFloat, data = [3/2, 0, 0, 0, 0, 0, 0, 2, 0]\<rparr> \<noteq> DInt"
  by (simp add: seed_competition_def Let_def ndim_def image_example_def invoke_def raise_def)

text \<open>
  C6, amended. The mask is coerced by the wrapper: \<open>distance_transform_edt\<close> and
  \<open>watershed_from_minima\<close> called with a mask return or raise the same, and invoke the core
  the same, as when called with \<open>mask.astype(bool)\<close>. The seeds are not coerced:
  \<open>seed_competition\<close> and \<open>dynamic_arc_weight\<close> hand the core the caller's \<open>seeds\<close> as they
  are, whenever they invoke it.
\<close>

theorem mask_coerced_seeds_as_given:
  "outcome (distance_transform_edt c (NdArray m) scales)
     = outcome (distance_transform_edt c (NdArray (astype_bool m)) scales)
   \<and> calls (distance_transform_edt c (NdArray m) scales)
     = calls (distance_transform_edt c (NdArray (astype_bool m)) scales)
   \<and> outcome (watershed_from_minima c image_arg (NdArray m) penalization)
     = outcome (watershed_from_minima c image_arg (NdArray (astype_bool m)) penalization)
   \<and> calls (watershed_from_minima c image_arg (NdArray m) penalization)
     = calls (watershed_from_minima c image_arg (NdArray (astype_bool m)) penalization)
   \<and> (calls (seed_competition c seeds image_arg graph image_3d) = []
       \<or> (\<exists>img'. calls (seed_competition c seeds image_arg graph image_3d)
                    = [SeedCompetitionGrid img' seeds])
       \<or> (\<exists>d i p. calls (seed_competition c seeds image_arg graph image_3d)
                    = [SeedCompetitionGraph d i p seeds]))
   \<and> (calls (dynamic_arc_weight c seeds image_arg image_3d mode alpha) = []
       \<or> (\<exists>img'. calls (dynamic_arc_weight c seeds image_arg image_3d mode alpha)
                    = [DynamicExpDecay img' seeds alpha])
       \<or> (\<exists>img'. calls (dynamic_arc_weight c seeds image_arg image_3d mode alpha)
                    = [DynamicLabel img' seeds])
       \<or> (\<exists>img'. calls (dynamic_arc_weight c seeds image_arg image_3d mode alpha)
                    = [DynamicRoot img' seeds]))"
proof (intro conjI)
  show "outcome (distance_transform_edt c (NdArray m) scales)
     = outcome (distance_transform_edt c (NdArray (astype_bool m)) scales)"
    by (simp add: distance_transform_edt_def Let_def raise_def)
  show "calls (distance_transform_edt c (NdArray m) scales)
     = calls (distance_transform_edt c (NdArray (astype_bool m)) scales)"
    by (simp add: distance_transform_edt_def Let_def raise_def)
  show "outcome (watershed_from_minima c image_arg (NdArray m) penalization)
     = outcome (watershed_from_minima c image_arg (NdArray (astype_bool m)) penalization)"
    by (cases image_arg) (simp_all add: watershed_from_minima_def Let_def raise_def invoke_def)
  show "calls (watershed_from_minima c image_arg (NdArray m) penalization)
     = calls (watershed_from_minima c image_arg (NdArray (astype_bool m)) penalization)"
    by (cases image_arg) (simp_all add: watershed_from_minima_def Let_def raise_def invoke_def)
  show "calls (seed_competition c seeds image_arg graph image_3d) = []
       \<or> (\<exists>img'. calls (seed_competition c seeds image_arg graph image_3d)
                    = [SeedCompetitionGrid img' seeds])
       \<or> (\<exists>d i p. calls (seed_competition c seeds image_arg graph image_3d)
                    = [SeedCompetitionGraph d i p seeds])"
    by (cases image_arg; cases graph)
       (simp_all add: seed_competition_def Let_def raise_def invoke_def)
  show "calls (dynamic_arc_weight c seeds image_arg image_3d mode alpha) = []
       \<or> (\<exists>img'. calls (dynamic_arc_weight c seeds image_arg image_3d mode alpha)
                    = [DynamicExpDecay img' seeds alpha])
       \<or> (\<exists>img'. calls (dynamic_arc_weight c seeds image_arg image_3d mode alpha)
                    = [DynamicLabel img' seeds])
       \<or> (\<exists>img'. calls (dynamic_arc_weight c seeds image_arg image_3d mode alpha)
                    = [DynamicRoot img' seeds])"
    by (cases image_arg)
       (simp_all add: dynamic_arc_weight_def Let_def raise_def invoke_def)
qed

text \<open>
  C7. \<open>dynamic_arc_weight\<close> raises \<open>ValueError\<close> for a \<open>mode\<close> outside \<open>'exp'\<close>, \<open>'label'\<close>,
  \<open>'root'\<close>, before the core executes. With a valid \<open>mode\<close> and arguments that pass the
  other checks it invokes the entry point of that mode (exponential decay, label, root)
  exactly once, on the caller's image data and seeds, and returns what it returns; and
  whatever the arguments, it invokes no other entry point than the one of its \<open>mode\<close>.
\<close>

theorem dynamic_arc_weight_mode_dispatch:
  "(mode \<notin> set allowed_modes \<longrightarrow>
      outcome (dynamic_arc_weight c seeds image_arg image_3d mode alpha) = Inl ValueError
      \<and> calls (dynamic_arc_weight c seeds image_arg image_3d mode alpha) = [])
   \<and> (mode \<in> set allowed_modes \<and> image_arg = NdArray img \<and> 2 \<le> ndim img \<and> ndim img \<le> 4
       \<and> 0 \<le> alpha \<and> alpha \<le> 1 \<and> \<not> (ndim img = 2 \<and> image_3d)
       \<and> grid_shape img image_3d = shape seeds \<longrightarrow>
       (\<exists>img'. data img' = data img \<and> dtype img' = dtype img
          \<and> butlast (shape img') = shape seeds
          \<and> (mode = ''exp'' \<longrightarrow>
                calls (dynamic_arc_weight c seeds image_arg image_3d mode alpha)
                  = [DynamicExpDecay img' seeds alpha]
                \<and> outcome (dynamic_arc_weight c seeds image_arg image_3d mode alpha)
                  = returned (dynamic_arc_weight_grid_exp_decay c img' seeds alpha))
          \<and> (mode = ''label'' \<longrightarrow>
                calls (dynamic_arc_weight c seeds image_arg image_3d mode alpha)
                  = [DynamicLabel img' seeds]
                \<and> outcome (dynamic_arc_weight c seeds image_arg image_3d mode alpha)
                  = returned (dynamic_arc_weight_grid_label c img' seeds))
          \<and> (mode = ''root'' \<longrightarrow>
                calls (dynamic_arc_weight c seeds image_arg image_3d mode alpha)
                  = [DynamicRoot img' seeds]
                \<and> outcome (dynamic_arc_weight c seeds image_arg image_3d mode alpha)
                  = returned (dynamic_arc_weight_grid_root c img' seeds))))
   \<and> (calls (dynamic_arc_weight c seeds image_arg image_3d mode alpha) = []
       \<or> (\<exists>img'. (mode = ''exp'' \<and> calls (dynamic_arc_weight c seeds image_arg image_3d mode alpha)
                                  = [DynamicExpDecay img' seeds alpha])
           \<or> (mode = ''label'' \<and> calls (dynamic_arc_weight c seeds image_arg image_3d mode alpha)
                                  = [DynamicLabel img' seeds])
           \<or> (mode = ''root'' \<and> calls (dynamic_arc_weight c seeds image_arg image_3d mode alpha)
                                  = [DynamicRoot img' seeds])))"
proof (intro conjI impI)
  assume "mode \<notin> set allowed_modes"
  then show "outcome (dynamic_arc_weight c seeds image_arg image_3d mode alpha) = Inl ValueError"
    and "calls (dynamic_arc_weight c seeds image_arg image_3d mode alpha) = []"
    by (simp_all add: dynamic_arc_weight_def raise_def)
next
  assume "mode \<in> set allowed_modes \<and> image_arg = NdArray img \<and> 2 \<le> ndim img \<and> ndim img \<le> 4
       \<and> 0 \<le> alpha \<and> alpha \<le> 1 \<and> \<not> (ndim img = 2 \<and> image_3d)
       \<and> grid_shape img image_3d = shape seeds"
  then obtain img' where "data img' = data img" "dtype img' = dtype img"
      "butlast (shape img') = shape seeds"
      "dynamic_arc_weight c seeds image_arg image_3d mode alpha =
              (if mode = ''exp'' then
                 invoke (DynamicExpDecay img' seeds alpha)
                   (dynamic_arc_weight_grid_exp_decay c img' seeds alpha)
                   (\<lambda>(w_image, w_seeds). (store seeds w_seeds, NdArray (store img w_image)))
               else if mode = ''label'' then
                 invoke (DynamicLabel img' seeds) (dynamic_arc_weight_grid_label c img' seeds)
                   (\<lambda>(w_image, w_seeds). (store seeds w_seeds, NdArray (store img w_image)))
               else
                 invoke (DynamicRoot img' seeds) (dynamic_arc_weight_grid_root c img' seeds)
                   (\<lambda>(w_image, w_seeds). (store seeds w_seeds, NdArray (store img w_image))))"
    using dynamic_arc_weight_accepted [of mode img alpha image_3d seeds c] by blast
  then show "\<exists>img'. data img' = data img \<and> dtype img' = dtype img
          \<and> butlast (shape img') = shape seeds
          \<and> (mode = ''exp'' \<longrightarrow>
                calls (dynamic_arc_weight c seeds image_arg image_3d mode alpha)
                  = [DynamicExpDecay img' seeds alpha]
                \<and> outcome (dynamic_arc_weight c seeds image_arg image_3d mode alpha)
                  = returned (dynamic_arc_weight_grid_exp_decay c img' seeds alpha))
          \<and> (mode = ''label'' \<longrightarrow>
                calls (dynamic_arc_weight c seeds image_arg image_3d mode alpha)
                  = [DynamicLabel img' seeds]
                \<and> outcome (dynamic_arc_weight c seeds image_arg image_3d mode alpha)
                  = returned (dynamic_arc_weight_grid_label c img' seeds))
          \<and> (mode = ''root'' \<longrightarrow>
                calls (dynamic_arc_weight c seeds image_arg image_3d mode alpha)
                  = [DynamicRoot img' seeds]
                \<and> outcome (dynamic_arc_weight c seeds image_arg image_3d mode alpha)
                  = returned (dynamic_arc_weight_grid_root c img' seeds))"
    by (intro exI [of _ img']) (auto simp: invoke_def)
next
  show "calls (dynamic_arc_weight c seeds image_arg image_3d mode alpha) = []
       \<or> (\<exists>img'. (mode = ''exp'' \<and> calls (dynamic_arc_weight c seeds image_arg image_3d mode alpha)
                                  = [DynamicExpDecay img' seeds alpha])
           \<or> (mode = ''label'' \<and> calls (dynamic_arc_weight c seeds image_arg image_3d mode alpha)
                                  = [DynamicLabel img' seeds])
           \<or> (mode = ''root'' \<and> calls (dynamic_arc_weight c seeds image_arg image_3d mode alpha)
                                  = [DynamicRoot img' seeds]))"
    by (rule dynamic_arc_weight_calls_cases)
qed


theorem dynamic_arc_weight_mode_dispatch_witness:
  "outcome (dynamic_arc_weight echo_core seeds_grid_example (NdArray image_example) False
              ''mean'' (1/2)) = Inl ValueError
   \<and> calls (dynamic_arc_weight echo_core seeds_grid_example (NdArray image_example) False
              ''mean'' (1/2)) = []
   \<and> calls (dynamic_arc_weight echo_core seeds_grid_example (NdArray image_example) False
              ''exp'' (1/2)) = [DynamicExpDecay image_example seeds_grid_example (1/2)]
   \<and> calls (dynamic_arc_weight echo_core seeds_grid_example (NdArray image_example) False
              ''label'' (1/2)) = [DynamicLabel image_example seeds_grid_example]
   \<and> calls (dynamic_arc_weight echo_core seeds_grid_example (NdArray image_example) False
              ''root'' (1/2)) = [DynamicRoot image_example seeds_grid_example]"
proof -
  have ok: "2 \<le> ndim image_example \<and> ndim image_example \<le> 4
            \<and> \<not> (ndim image_example = 2 \<and> False)
            \<and> grid_shape image_example False = shape seeds_grid_example"
    by (simp add: ndim_def grid_shape_def image_example_def seeds_grid_example_def)
  show ?thesis
    using dynamic_arc_weight_mode_dispatch
            [of "''mean''" echo_core seeds_grid_example "NdArray image_example" False "1/2"
                image_example]
          dynamic_arc_weight_mode_dispatch
            [of "''exp''" echo_core seeds_grid_example "NdArray image_example" False "1/2"
                image_example]
          dynamic_arc_weight_mode_dispatch
            [of "''label''" echo_core seeds_grid_example "NdArray image_example" False "1/2"
                image_example]
          dynamic_arc_weight_mode_dispatch
            [of "''root''" echo_core seeds_grid_example "NdArray image_example" False "1/2"
                image_example]
          ok
    by (simp add: allowed_modes_def dynamic_arc_weight_def Let_def ndim_def image_example_def
          seeds_grid_example_def invoke_def raise_def)
qed

text \<open>
  C8. \<open>watershed_from_minima\<close> with \<open>mask\<close> omitted returns or raises the same, invokes the
  core the same and leaves the image the same as with a boolean mask of the shape of the
  image whose every element is \<open>True\<close>; with \<open>penalization\<close> omitted it is the call with
  \<open>penalization = 1.0\<close>.
\<close>

theorem watershed_from_minima_defaults:
  "outcome (watershed_from_minima c (NdArray img) PyNone penalization)
     = outcome (watershed_from_minima c (NdArray img) (NdArray (ones_like_bool img)) penalization)
   \<and> calls (watershed_from_minima c (NdArray img) PyNone penalization)
     = calls (watershed_from_minima c (NdArray img) (NdArray (ones_like_bool img)) penalization)
   \<and> fst (args_after (watershed_from_minima c (NdArray img) PyNone penalization))
     = fst (args_after (watershed_from_minima c (NdArray img) (NdArray (ones_like_bool img))
                          penalization))
   \<and> dtype (ones_like_bool img) = DBool \<and> shape (ones_like_bool img) = shape img
   \<and> data (ones_like_bool img) = replicate (prod_list (shape img)) 1
   \<and> watershed_from_minima c image_arg mask_arg None
     = watershed_from_minima c image_arg mask_arg (Some 1)"
  by (auto simp: watershed_from_minima_def Let_def raise_def invoke_def ones_like_bool_def
        split: prod.splits)

text \<open>
  C9. No entry point mutates its inputs. The wrapper itself writes to no array; it hands
  the core the caller's seeds, image, graph arrays and (when of length 3) scales, and
  copies of the mask. So with a core that leaves the buffers it is handed as it found
  them, the caller's arguments after a call, returned or raised, are what they were
  before.
\<close>

theorem entry_points_leave_arguments:
  "core_read_only c \<Longrightarrow>
     args_after (seed_competition c seeds image_arg graph image_3d) = (seeds, image_arg, graph)
     \<and> args_after (dynamic_arc_weight c seeds' image_arg' image_3d' mode alpha)
         = (seeds', image_arg')
     \<and> args_after (distance_transform_edt c mask_arg scales) = (mask_arg, scales)
     \<and> args_after (watershed_from_minima c image_arg'' mask_arg' penalization)
         = (image_arg'', mask_arg')"
proof (intro conjI)
  assume ro: "core_read_only c"
  show "args_after (seed_competition c seeds image_arg graph image_3d) = (seeds, image_arg, graph)"
    using ro
    by (cases image_arg; cases graph)
       (simp_all add: core_read_only_def seed_competition_def Let_def raise_def invoke_def)
  show "args_after (dynamic_arc_weight c seeds' image_arg' image_3d' mode alpha)
         = (seeds', image_arg')"
    using ro
    by (cases image_arg')
       (simp_all add: core_read_only_def dynamic_arc_weight_def Let_def raise_def invoke_def)
  show "args_after (distance_transform_edt c mask_arg scales) = (mask_arg, scales)"
    using ro
    by (cases mask_arg; cases scales)
       (simp_all add: core_read_only_def distance_transform_edt_def Let_def raise_def)
  show "args_after (watershed_from_minima c image_arg'' mask_arg' penalization)
         = (image_arg'', mask_arg')"
    using ro
    by (cases image_arg''; cases mask_arg')
       (simp_all add: core_read_only_def watershed_from_minima_def Let_def raise_def invoke_def)
qed

theorem entry_points_leave_arguments_witness:
  "core_read_only echo_core
   \<and> args_after (seed_competition echo_core seeds_graph_example PyNone (CsrMatrix graph_example)
                   False) = (seeds_graph_example, PyNone, CsrMatrix graph_example)
   \<and> args_after (dynamic_arc_weight echo_core seeds_grid_example (NdArray image_example) False
                   ''label'' (1/2)) = (seeds_grid_example, NdArray image_example)
   \<and> args_after (distance_transform_edt echo_core (NdArray mask_example)
                   (ScalesArray \<lparr>shape = [3], dtype = DFloat, data = [2, 3, 4]\<rparr>))
       = (NdArray mask_example, ScalesArray \<lparr>shape = [3], dtype = DFloat, data = [2, 3, 4]\<rparr>)
   \<and> args_after (watershed_from_minima echo_core (NdArray grayscale_example) PyNone None)
       = (NdArray grayscale_example, PyNone)"
proof -
  have ro: "core_read_only echo_core"
    by (simp add: core_read_only_def echo_core_def)
  from entry_points_leave_arguments [OF ro] ro show ?thesis by simp
qed

text \<open>
  C10. Given a \<open>scales\<close> of length 2, \<open>distance_transform_edt\<close> hands the core the vector
  \<open>(1, scales[0], scales[1])\<close> of length 3 whenever it invokes it, and it invokes it for
  every mask of 2 or 3 dimensions: for a 3-dimensional mask the scale of the leading axis
  is 1 and \<open>scales\<close> sets the last two.
\<close>

theorem distance_transform_edt_two_scales:
  "shape s = [2] \<longrightarrow>
     (calls (distance_transform_edt c mask_arg (ScalesArray s)) = []
      \<or> (\<exists>m. calls (distance_transform_edt c mask_arg (ScalesArray s))
               = [EuclideanDistanceTransformGrid m
                    \<lparr>shape = [3], dtype = (case dtype s of DFloat \<Rightarrow> DFloat | _ \<Rightarrow> DInt),
                     data = [1, item s 0, item s 1]\<rparr>]))
     \<and> (2 \<le> ndim m \<and> ndim m \<le> 3 \<longrightarrow>
          calls (distance_transform_edt c (NdArray m) (ScalesArray s))
            = [EuclideanDistanceTransformGrid (astype_bool m)
                 \<lparr>shape = [3], dtype = (case dtype s of DFloat \<Rightarrow> DFloat | _ \<Rightarrow> DInt),
                  data = [1, item s 0, item s 1]\<rparr>]
          \<and> outcome (distance_transform_edt c (NdArray m) (ScalesArray s))
            = map_sum id fst (returned (euclidean_distance_transform_grid c (astype_bool m)
                 \<lparr>shape = [3], dtype = (case dtype s of DFloat \<Rightarrow> DFloat | _ \<Rightarrow> DInt),
                  data = [1, item s 0, item s 1]\<rparr>)))"
  by (cases mask_arg)
     (auto simp: distance_transform_edt_def Let_def raise_def ndim_def array3_def
        split: sum.splits prod.splits)

theorem distance_transform_edt_two_scales_witness:
  "calls (distance_transform_edt echo_core
            (NdArray \<lparr>shape = [2, 2, 2], dtype = DBool, data = [0, 1, 1, 1, 1, 1, 1, 0]\<rparr>)
            (ScalesArray \<lparr>shape = [2], dtype = DFloat, data = [2, 3]\<rparr>))
     = [EuclideanDistanceTransformGrid
          \<lparr>shape = [2, 2, 2], dtype = DBool, data = [0, 1, 1, 1, 1, 1, 1, 0]\<rparr>
          \<lparr>shape = [3], dtype = DFloat, data = [1, 2, 3]\<rparr>]"
  using distance_transform_edt_two_scales
          [of "\<lparr>shape = [2], dtype = DFloat, data = [2, 3]\<rparr>" echo_core
              "NdArray \<lparr>shape = [2, 2, 2], dtype = DBool, data = [0, 1, 1, 1, 1, 1, 1, 0]\<rparr>"
              "\<lparr>shape = [2, 2, 2], dtype = DBool, data = [0, 1, 1, 1, 1, 1, 1, 0]\<rparr>"]
  by (simp add: ndim_def item_def astype_bool_def)

end
